theory Spec2Isabelle
  imports Complex_Main "HOL-Library.Sublist"
begin

section \<open>Strings as Python sees them\<close>

text \<open>
  A Python \<open>str\<close> is modelled as a \<open>string\<close> whose characters are the code points
  below 256 (the Latin-1 range), so the model covers the texts made of such code points.
  On this range \<open>str.lower\<close> maps \<open>A\<close>..\<open>Z\<close> and the accented capitals 192..222
  (but not the multiplication sign, 215) to the code point 32 above, and leaves every
  other character alone; \<open>str.isspace\<close> holds of the code points 9..13, 28..32, 133
  and 160.
\<close>

definition isupper :: "char \<Rightarrow> bool" where
  "isupper c =
     (let n = (of_char c :: nat)
      in (65 \<le> n \<and> n \<le> 90) \<or> (192 \<le> n \<and> n \<le> 222 \<and> n \<noteq> 215))"

definition lower_char :: "char \<Rightarrow> char" where
  "lower_char c = (if isupper c then char_of ((of_char c :: nat) + 32) else c)"

definition lower :: "string \<Rightarrow> string" where
  "lower s = map lower_char s"

definition isspace :: "char \<Rightarrow> bool" where
  "isspace c =
     (let n = (of_char c :: nat)
      in (9 \<le> n \<and> n \<le> 13) \<or> (28 \<le> n \<and> n \<le> 32) \<or> n = 133 \<or> n = 160)"

text \<open>\<open>s.strip()\<close>: the leading and the trailing run of whitespace removed.\<close>

definition strip :: "string \<Rightarrow> string" where
  "strip s = rev (dropWhile isspace (rev (dropWhile isspace s)))"

text \<open>
  \<open>s.replace(old, new)\<close>: every occurrence of \<open>old\<close>, found from the left and not
  overlapping the one before, becomes \<open>new\<close>. With an empty \<open>old\<close> Python puts
  \<open>new\<close> before every character and at the end.
\<close>

function replace :: "string \<Rightarrow> string \<Rightarrow> string \<Rightarrow> string" where
  "replace old new s =
     (if old = [] then new @ concat (map (\<lambda>c. c # new) s)
      else if s = [] then []
      else if prefix old s then new @ replace old new (drop (length old) s)
      else hd s # replace old new (tl s))"
  by pat_completeness auto
termination
  by (relation "measure (\<lambda>(old, new, s). length s)") (auto simp: Suc_le_eq)

declare replace.simps [simp del]

text \<open>
  Text mode. Both \<open>open\<close> with mode \<open>r\<close> and \<open>subprocess.run\<close> with
  \<open>text=True\<close> hand the program a text in which the line ends have been translated:
  every carriage return followed by a line feed has become a line feed, and then every
  carriage return that is left has become a line feed too (in \<open>subprocess\<close> by two
  calls of \<open>replace\<close>, one after the other).
\<close>

definition CR :: char where
  "CR = CHR 0x0D"

definition LF :: char where
  "LF = CHR 0x0A"

definition universal_newlines :: "string \<Rightarrow> string" where
  "universal_newlines s = replace [CR] [LF] (replace [CR, LF] [LF] s)"

section \<open>The world outside the program\<close>

text \<open>
  What a call of \<open>subprocess.run\<close> with a command meets:
  \<^item> \<open>Rejected\<close>: the call is refused before any process is started, with a
    \<open>ValueError\<close>; this is what happens to a command with an argument that holds a
    NUL character;
  \<^item> \<open>Spawn_failed\<close>: the process could not be started (an \<open>OSError\<close>, such as
    \<open>FileNotFoundError\<close> for a missing executable);
  \<^item> \<open>Exited rc out\<close>: the process ran and exited with the return code \<open>rc\<close>,
    and what it wrote decodes as text: \<open>out\<close> is the text it wrote to its standard
    output, with the line ends as the process wrote them;
  \<^item> \<open>Exited_undecodable rc\<close>: the process ran and exited with the return code
    \<open>rc\<close>, and what it wrote to its standard output or its standard error does not
    decode as text.
\<close>

datatype run_outcome = Rejected | Spawn_failed | Exited int string | Exited_undecodable int

text \<open>
  What a path holds when it is opened for reading: a text (with the line ends as the file
  has them), bytes that do not decode as text, or something that cannot be opened for
  reading at all (a directory, a file without read permission).
\<close>

datatype contents = Text string | Undecodable | Unreadable

text \<open>
  The exceptions that the program raises or lets through:
  \<^item> \<open>NotImplementedError\<close>: raised at line 82;
  \<^item> \<open>ValueError_unsupported_engine\<close>: the \<open>ValueError\<close> raised at line 148, and
    no other;
  \<^item> \<open>ValueError_embedded_null\<close>: the \<open>ValueError\<close> with which
    \<open>subprocess.run\<close> refuses a command;
  \<^item> \<open>UnicodeDecodeError\<close> (in Python a subclass of \<open>ValueError\<close>): a file or
    a captured output does not decode as text;
  \<^item> \<open>CalledProcessError\<close>: what \<open>check=True\<close> raises on a non-zero return
    code;
  \<^item> \<open>OSError\<close>: the process of the command could not be started;
  \<^item> \<open>FileNotFoundError\<close> and \<open>PermissionError\<close>: the file at the path is not
    there, or cannot be opened for reading;
  \<^item> \<open>SystemExit\<close>: how the argument parser stops the process on a bad command
    line.
\<close>

datatype exn =
    NotImplementedError
  | ValueError_unsupported_engine
  | ValueError_embedded_null "string list"
  | UnicodeDecodeError
  | CalledProcessError int "string list"
  | OSError "string list"
  | FileNotFoundError string
  | PermissionError string
  | SystemExit int

text \<open>
  The environment of one run: how each command behaves when it is run, what each path
  holds when it is opened for reading (\<open>None\<close> for a file that is not there), and what
  the \<open>n\<close>-th call of \<open>time.time()\<close> returns. Times are reals: the rounding of the
  floating-point subtraction is not modelled. The environment of a real run answers
  \<open>Rejected\<close> for the commands with a NUL in an argument; the theorems below hold of
  every environment, whatever it answers.
\<close>

record env =
  subprocess_run :: "string list \<Rightarrow> run_outcome"
  open_read :: "string \<Rightarrow> contents option"
  time_time :: "nat \<Rightarrow> real"

text \<open>
  What the program prints. The banner lines are ASCII and kept as they are; each of the
  messages in Russian is a constructor of its own, carrying the value that the source
  formats into it:
  \<^item> \<open>Whisper_error e\<close>: the transcription error message of line 102, with \<open>e\<close>;
  \<^item> \<open>Llama_error e\<close>: the translation error message of line 129, with \<open>e\<close>;
  \<^item> \<open>Transcription_failed\<close>: the message of line 151;
  \<^item> \<open>Elapsed_time t\<close>: \<open>Elapsed time: t seconds\<close> of line 70;
  \<^item> \<open>Translation_result s\<close>: the heading and the result that \<open>main\<close> prints;
  \<^item> \<open>Usage_error\<close>: the usage and the error that the argument parser prints.
\<close>

datatype message =
    Line string
  | Whisper_error exn
  | Llama_error exn
  | Transcription_failed
  | Elapsed_time real
  | Translation_result string
  | Usage_error

text \<open>
  The observable steps of a run, in order: a line printed, a call of \<open>subprocess.run\<close>
  with its command (whether or not the process could be started), a file opened for
  reading, a reading of the clock, and the assignment to \<open>self.elapsed_time\<close>.
\<close>

datatype event =
    Print message
  | Subprocess_run "string list"
  | Open_read string
  | Time_time
  | Set_elapsed_time real

section \<open>GameTranslator\<close>

record GameTranslator =
  pre_recorded :: bool
  transcription_model :: string
  filepath :: string
  input_language :: string
  output_language :: string
  elapsed_time :: real

definition GameTranslator_init ::
    "string \<Rightarrow> string \<Rightarrow> bool \<Rightarrow> string \<Rightarrow> string \<Rightarrow> GameTranslator" where
  "GameTranslator_init transcription_model' filepath' prerecorded input_language' output_language' =
     \<lparr>pre_recorded = prerecorded,
      transcription_model = transcription_model',
      filepath = filepath',
      input_language = lower input_language',
      output_language = lower output_language',
      elapsed_time = 0\<rparr>"

definition stars :: string where
  "stars = replicate 40 (CHR ''*'')"

definition show_translator_info :: "GameTranslator \<Rightarrow> event list" where
  "show_translator_info self =
     [Print (Line stars),
      Print (Line (''Transcription model : '' @ transcription_model self)),
      Print (Line (''Using prerecorded audio file : '' @
                   (if pre_recorded self then filepath self else ''None''))),
      Print (Line (''Input  language : '' @ input_language self)),
      Print (Line (''Output language : '' @ output_language self)),
      Print (Line stars)]"

definition show_time :: "GameTranslator \<Rightarrow> event list" where
  "show_time self = [Print (Elapsed_time (elapsed_time self))]"

text \<open>
  \<open>subprocess.run(command, check=True)\<close>, and with \<open>capture\<close> the call that has
  \<open>capture_output=True, text=True\<close> as well. The call raises a \<open>ValueError\<close> when the
  command is refused and an \<open>OSError\<close> when the process cannot be started. With
  \<open>capture\<close> the output is decoded as soon as the process has ended, before the return
  code is looked at, so an output that does not decode raises \<open>UnicodeDecodeError\<close>
  whatever the return code. Then a non-zero return code raises \<open>CalledProcessError\<close>.
  Otherwise the call returns: with \<open>capture\<close> its result holds the standard output in
  text mode, without it no output at all.
\<close>

definition run_checked :: "env \<Rightarrow> bool \<Rightarrow> string list \<Rightarrow> exn + string" where
  "run_checked e capture command =
     (case subprocess_run e command of
        Rejected \<Rightarrow> Inl (ValueError_embedded_null command)
      | Spawn_failed \<Rightarrow> Inl (OSError command)
      | Exited rc out \<Rightarrow>
          if rc \<noteq> 0 then Inl (CalledProcessError rc command)
          else Inr (if capture then universal_newlines out else [])
      | Exited_undecodable rc \<Rightarrow>
          if capture then Inl UnicodeDecodeError
          else if rc \<noteq> 0 then Inl (CalledProcessError rc command)
          else Inr [])"

definition whisper_path :: string where
  "whisper_path = ''./whisper.cpp/main''"

definition model_path :: string where
  "model_path = ''./whisper.cpp/models/ggml-base.en.bin''"

definition result_file :: "GameTranslator \<Rightarrow> string" where
  "result_file self = replace ''.wav.txt'' ''.txt'' (filepath self)"

definition whisper_command :: "GameTranslator \<Rightarrow> string list" where
  "whisper_command self =
     [whisper_path, ''-m'', model_path, ''-f'', filepath self,
      ''-l'', input_language self, ''-otxt'']"

text \<open>
  A stage returns the events it caused and either the exception it raised or the text
  it returned. The \<open>try\<close> of the source covers the run of the process and the reading of
  the result file; its only handler is for \<open>CalledProcessError\<close>. The file is read in
  text mode, and \<open>strip\<close> works on the text so read.
\<close>

definition whisper_cpp_transcription :: "env \<Rightarrow> GameTranslator \<Rightarrow> event list \<times> (exn + string)" where
  "whisper_cpp_transcription e self =
     (if \<not> pre_recorded self then ([], Inl NotImplementedError)
      else
        (case run_checked e False (whisper_command self) of
           Inl (CalledProcessError rc c) \<Rightarrow>
             ([Subprocess_run (whisper_command self),
               Print (Whisper_error (CalledProcessError rc c))], Inr [])
         | Inl x \<Rightarrow> ([Subprocess_run (whisper_command self)], Inl x)
         | Inr out \<Rightarrow>
             (case open_read e (result_file self) of
                None \<Rightarrow>
                  ([Subprocess_run (whisper_command self), Open_read (result_file self)],
                   Inl (FileNotFoundError (result_file self)))
              | Some Unreadable \<Rightarrow>
                  ([Subprocess_run (whisper_command self), Open_read (result_file self)],
                   Inl (PermissionError (result_file self)))
              | Some Undecodable \<Rightarrow>
                  ([Subprocess_run (whisper_command self), Open_read (result_file self)],
                   Inl UnicodeDecodeError)
              | Some (Text content) \<Rightarrow>
                  ([Subprocess_run (whisper_command self), Open_read (result_file self)],
                   Inr (strip (universal_newlines content))))))"

definition prompt :: "GameTranslator \<Rightarrow> string \<Rightarrow> string" where
  "prompt self text = ''Translate the following text to '' @ output_language self @ '': '' @ text"

definition llama_command :: "GameTranslator \<Rightarrow> string \<Rightarrow> string list" where
  "llama_command self text = [''ollama'', ''run'', ''llama3'', prompt self text]"

definition llama_translation :: "env \<Rightarrow> GameTranslator \<Rightarrow> string \<Rightarrow> event list \<times> (exn + string)" where
  "llama_translation e self text =
     (case run_checked e True (llama_command self text) of
        Inl (CalledProcessError rc c) \<Rightarrow>
          ([Subprocess_run (llama_command self text),
            Print (Llama_error (CalledProcessError rc c))], Inr [])
      | Inl x \<Rightarrow> ([Subprocess_run (llama_command self text)], Inl x)
      | Inr stdout \<Rightarrow> ([Subprocess_run (llama_command self text)], Inr (strip stdout)))"

text \<open>
  A run of \<open>translate\<close>: the events in order, the object as the run leaves it, and the
  exception raised or the text returned.
\<close>

record run =
  trace :: "event list"
  self_after :: GameTranslator
  returned :: "exn + string"

definition translate :: "env \<Rightarrow> GameTranslator \<Rightarrow> run" where
  "translate e self =
     (let start_time = time_time e 0;
          shown = Time_time # show_translator_info self
      in if transcription_model self = ''whisper_cpp'' then
           (case whisper_cpp_transcription e self of
              (heard, Inl x) \<Rightarrow>
                \<lparr>trace = shown @ heard, self_after = self, returned = Inl x\<rparr>
            | (heard, Inr text) \<Rightarrow>
                if text = [] then
                  \<lparr>trace = shown @ heard @ [Print Transcription_failed],
                   self_after = self, returned = Inr []\<rparr>
                else
                  (case llama_translation e self text of
                     (said, Inl x) \<Rightarrow>
                       \<lparr>trace = shown @ heard @ said, self_after = self, returned = Inl x\<rparr>
                   | (said, Inr translation) \<Rightarrow>
                       (let end_time = time_time e 1;
                            self' = self\<lparr>elapsed_time := end_time - start_time\<rparr>
                        in \<lparr>trace = shown @ heard @ said @
                                     [Time_time, Set_elapsed_time (end_time - start_time)] @
                                     show_time self',
                            self_after = self', returned = Inr translation\<rparr>)))
         else \<lparr>trace = shown, self_after = self,
               returned = Inl ValueError_unsupported_engine\<rparr>)"

text \<open>The commands that a trace ran, and the values that it assigned to \<open>elapsed_time\<close>.\<close>

fun commands_run :: "event list \<Rightarrow> string list list" where
  "commands_run [] = []"
| "commands_run (Subprocess_run c # es) = c # commands_run es"
| "commands_run (_ # es) = commands_run es"

fun elapsed_writes :: "event list \<Rightarrow> real list" where
  "elapsed_writes [] = []"
| "elapsed_writes (Set_elapsed_time t # es) = t # elapsed_writes es"
| "elapsed_writes (_ # es) = elapsed_writes es"

text \<open>
  Whether a run gets to the end of \<open>translate\<close> (lines 156 to 159): the engine is the
  known one, the transcription stage returns a text that is not empty, and the
  translation stage returns (a translation, or the empty text after a non-zero exit).
\<close>

definition reaches_end :: "env \<Rightarrow> GameTranslator \<Rightarrow> bool" where
  "reaches_end e self =
     (transcription_model self = ''whisper_cpp'' \<and>
      (case snd (whisper_cpp_transcription e self) of
         Inl x \<Rightarrow> False
       | Inr text \<Rightarrow>
           text \<noteq> [] \<and>
           (case snd (llama_translation e self text) of Inl x \<Rightarrow> False | Inr translation \<Rightarrow> True)))"

section \<open>The command line\<close>

text \<open>
  The command line as the parser meets it: for each option that takes a value, the value
  given (\<open>None\<close> when the option is absent), and whether \<open>--pre_recorded\<close> is present.
  How \<open>argparse\<close> splits and matches the words of \<open>sys.argv\<close> is not modelled, nor
  is \<open>--help\<close>.
\<close>

datatype command_line = Command_line
  (given_file: "string option")
  (given_transcription_model: "string option")
  (given_pre_recorded: bool)
  (given_input_language: "string option")
  (given_output_language: "string option")

datatype namespace = Namespace
  (args_file: string)
  (args_transcription_model: string)
  (args_pre_recorded: bool)
  (args_input_language: string)
  (args_output_language: string)

definition choices :: "string list" where
  "choices = [''whisper_cpp'']"

text \<open>
  \<open>parser.parse_args()\<close> for the five arguments that \<open>main\<close> declares: the four options
  with \<open>required=True\<close> must be present, and the value of \<open>--transcription_model\<close> must
  be one of its \<open>choices\<close>; otherwise the parser reports the error and exits with
  status 2.
\<close>

definition parse_args :: "command_line \<Rightarrow> exn + namespace" where
  "parse_args cl =
     (case (given_file cl, given_transcription_model cl,
            given_input_language cl, given_output_language cl) of
        (Some f, Some m, Some i, Some out) \<Rightarrow>
          if m \<in> set choices then Inr (Namespace f m (given_pre_recorded cl) i out)
          else Inl (SystemExit 2)
      | _ \<Rightarrow> Inl (SystemExit 2))"

definition main :: "env \<Rightarrow> command_line \<Rightarrow> event list \<times> (exn + unit)" where
  "main e cl =
     (case parse_args cl of
        Inl x \<Rightarrow> ([Print Usage_error], Inl x)
      | Inr args \<Rightarrow>
          (let translator =
                 GameTranslator_init (args_transcription_model args) (args_file args)
                   (args_pre_recorded args) (args_input_language args)
                   (args_output_language args);
               r = translate e translator
           in case returned r of
                Inl x \<Rightarrow> (trace r, Inl x)
              | Inr translation_result \<Rightarrow>
                  (trace r @ [Print (Translation_result translation_result)], Inr ())))"

section \<open>Environments and configurations of the scenarios\<close>

text \<open>A clock that reads 100 at the start of the run and 103.5 at its end.\<close>

definition clock :: "nat \<Rightarrow> real" where
  "clock n = (if n = 0 then 100 else 103.5)"

text \<open>Scenario A of the specification: both engines succeed.\<close>

definition env_A :: env where
  "env_A =
     \<lparr>subprocess_run =
        (\<lambda>c. if hd c = ''ollama'' then Exited 0 ''  Hallo Welt\<newline>'' else Exited 0 []),
      open_read = (\<lambda>p. if p = ''a.wav'' then Some (Text '' Hello world\<newline>'') else None),
      time_time = clock\<rparr>"

definition job_A :: GameTranslator where
  "job_A = GameTranslator_init ''whisper_cpp'' ''a.wav'' True ''English'' ''German''"

text \<open>Scenario B: every process exits with code 1.\<close>

definition env_B :: env where
  "env_B =
     \<lparr>subprocess_run = (\<lambda>c. Exited 1 []),
      open_read = (\<lambda>p. if p = ''a.wav'' then Some (Text '' Hello world\<newline>'') else None),
      time_time = clock\<rparr>"

text \<open>Scenario D: the transcription succeeds and the translation engine exits with code 1.\<close>

definition env_D :: env where
  "env_D =
     \<lparr>subprocess_run = (\<lambda>c. if hd c = ''ollama'' then Exited 1 [] else Exited 0 []),
      open_read = (\<lambda>p. if p = ''a.wav'' then Some (Text ''Bonjour'') else None),
      time_time = clock\<rparr>"

text \<open>No process can be started.\<close>

definition env_no_spawn :: env where
  "env_no_spawn =
     \<lparr>subprocess_run = (\<lambda>c. Spawn_failed),
      open_read = (\<lambda>p. if p = ''a.wav'' then Some (Text '' Hello world\<newline>'') else None),
      time_time = clock\<rparr>"


text \<open>
  Both engines succeed; the result file and the output of the translation engine have
  the line ends of Windows.
\<close>

definition env_crlf :: env where
  "env_crlf =
     \<lparr>subprocess_run =
        (\<lambda>c. if hd c = ''ollama'' then Exited 0 (''Hallo'' @ [CR, LF] @ ''Welt'' @ [CR, LF])
             else Exited 0 []),
      open_read =
        (\<lambda>p. if p = ''a.wav'' then Some (Text (''Hello'' @ [CR, LF] @ ''world'' @ [CR, LF]))
             else None),
      time_time = clock\<rparr>"

text \<open>Every process exits with code 1, and what it wrote does not decode as text.\<close>

definition env_garbled :: env where
  "env_garbled =
     \<lparr>subprocess_run = (\<lambda>c. Exited_undecodable 1),
      open_read = (\<lambda>p. if p = ''a.wav'' then Some (Text '' Hello world\<newline>'') else None),
      time_time = clock\<rparr>"

text \<open>
  An environment in which a command with a NUL in an argument is refused and every other
  command succeeds, and a configuration whose audio path holds a NUL.
\<close>

definition env_nul :: env where
  "env_nul =
     \<lparr>subprocess_run =
        (\<lambda>c. if list_ex (\<lambda>arg. CHR 0x00 \<in> set arg) c then Rejected else Exited 0 []),
      open_read = (\<lambda>p. Some (Text '' Hello world\<newline>'')),
      time_time = clock\<rparr>"

definition job_nul :: GameTranslator where
  "job_nul =
     GameTranslator_init ''whisper_cpp'' (''a'' @ [CHR 0x00] @ ''.wav'') True ''english'' ''russian''"

text \<open>A live-capture configuration, and one with an engine that is not known.\<close>

definition job_live :: GameTranslator where
  "job_live = GameTranslator_init ''whisper_cpp'' ''a.wav'' False ''english'' ''russian''"

definition job_unknown :: GameTranslator where
  "job_unknown = GameTranslator_init ''unknown_engine'' ''a.wav'' True ''english'' ''russian''"

text \<open>The command line of scenario A, and one that names an engine that is not known.\<close>

definition cl_A :: command_line where
  "cl_A = Command_line (Some ''a.wav'') (Some ''whisper_cpp'') True (Some ''English'') (Some ''German'')"

definition cl_unknown :: command_line where
  "cl_unknown =
     Command_line (Some ''a.wav'') (Some ''unknown_engine'') True (Some ''English'') (Some ''German'')"

section \<open>Helper facts\<close>

lemma commands_run_append: "commands_run (xs @ ys) = commands_run xs @ commands_run ys"
  by (induction xs rule: commands_run.induct) simp_all

lemma elapsed_writes_append: "elapsed_writes (xs @ ys) = elapsed_writes xs @ elapsed_writes ys"
  by (induction xs rule: elapsed_writes.induct) simp_all

lemma commands_run_show_translator_info: "commands_run (show_translator_info self) = []"
  by (simp add: show_translator_info_def)

lemma elapsed_writes_show_translator_info: "elapsed_writes (show_translator_info self) = []"
  by (simp add: show_translator_info_def)

lemma commands_run_whisper:
  "commands_run (fst (whisper_cpp_transcription e self)) =
     (if pre_recorded self then [whisper_command self] else [])"
  by (simp add: whisper_cpp_transcription_def
      split: sum.splits exn.splits option.splits contents.splits)

lemma commands_run_llama:
  "commands_run (fst (llama_translation e self text)) = [llama_command self text]"
  by (simp add: llama_translation_def split: sum.splits exn.splits)

lemma elapsed_writes_whisper: "elapsed_writes (fst (whisper_cpp_transcription e self)) = []"
  by (simp add: whisper_cpp_transcription_def
      split: sum.splits exn.splits option.splits contents.splits)

lemma elapsed_writes_llama: "elapsed_writes (fst (llama_translation e self text)) = []"
  by (simp add: llama_translation_def split: sum.splits exn.splits)

lemma hd_whisper_command: "hd (whisper_command self) \<noteq> ''ollama''"
  by (simp add: whisper_command_def whisper_path_def)

lemma elapsed_writes_heard:
  "whisper_cpp_transcription e self = (heard, r) \<Longrightarrow> elapsed_writes heard = []"
  using elapsed_writes_whisper [of e self] by simp

lemma elapsed_writes_said:
  "llama_translation e self t = (said, r) \<Longrightarrow> elapsed_writes said = []"
  using elapsed_writes_llama [of e self t] by simp

lemma translate_reaches_end:
  assumes "reaches_end e self"
  shows "\<exists>heard t said translation.
           whisper_cpp_transcription e self = (heard, Inr t) \<and>
           llama_translation e self t = (said, Inr translation) \<and>
           translate e self =
             \<lparr>trace = Time_time # show_translator_info self @ heard @ said @
                       [Time_time, Set_elapsed_time (time_time e 1 - time_time e 0),
                        Print (Elapsed_time (time_time e 1 - time_time e 0))],
              self_after = self\<lparr>elapsed_time := time_time e 1 - time_time e 0\<rparr>,
              returned = Inr translation\<rparr>"
proof -
  obtain heard r where w: "whisper_cpp_transcription e self = (heard, r)"
    by (cases "whisper_cpp_transcription e self")
  from assms w obtain t where r: "r = Inr t" and t: "t \<noteq> []"
    by (cases r) (auto simp: reaches_end_def)
  obtain said r' where l: "llama_translation e self t = (said, r')"
    by (cases "llama_translation e self t")
  from assms w r l obtain translation where r': "r' = Inr translation"
    by (cases r') (auto simp: reaches_end_def)
  from assms have "transcription_model self = ''whisper_cpp''"
    by (simp add: reaches_end_def)
  then show ?thesis
    using w r t l r' by (simp add: translate_def Let_def show_time_def)
qed

lemma translate_stops_early:
  assumes "\<not> reaches_end e self"
  shows "elapsed_writes (trace (translate e self)) = [] \<and> self_after (translate e self) = self"
proof (cases "transcription_model self = ''whisper_cpp''")
  case False
  then show ?thesis
    by (simp add: translate_def elapsed_writes_show_translator_info)
next
  case True
  obtain heard r where w: "whisper_cpp_transcription e self = (heard, r)"
    by (cases "whisper_cpp_transcription e self")
  note hw = elapsed_writes_heard [OF w]
  show ?thesis
  proof (cases r)
    case (Inl x)
    with True w hw show ?thesis
      by (simp add: translate_def elapsed_writes_append elapsed_writes_show_translator_info)
  next
    case (Inr t)
    show ?thesis
    proof (cases "t = []")
      case True
      with \<open>transcription_model self = ''whisper_cpp''\<close> w Inr hw show ?thesis
        by (simp add: translate_def elapsed_writes_append elapsed_writes_show_translator_info)
    next
      case False
      obtain said r' where l: "llama_translation e self t = (said, r')"
        by (cases "llama_translation e self t")
      note hl = elapsed_writes_said [OF l]
      from assms True w Inr False l obtain x where "r' = Inl x"
        by (cases r') (auto simp: reaches_end_def)
      with True w Inr False l hw hl show ?thesis
        by (simp add: translate_def elapsed_writes_append elapsed_writes_show_translator_info)
    qed
  qed
qed

lemma rev_dropWhile_takeWhile:
  "xs = rev (dropWhile P (rev xs)) @ rev (takeWhile P (rev xs))"
proof -
  have "xs = rev (takeWhile P (rev xs) @ dropWhile P (rev xs))"
    by simp
  also have "\<dots> = rev (dropWhile P (rev xs)) @ rev (takeWhile P (rev xs))"
    by (rule rev_append)
  finally show ?thesis .
qed

lemma strip_decompose:
  "\<exists>before after. s = before @ strip s @ after \<and> (\<forall>c \<in> set (before @ after). isspace c)"
proof -
  let ?m = "dropWhile isspace s"
  let ?before = "takeWhile isspace s"
  let ?after = "rev (takeWhile isspace (rev ?m))"
  have "?m = strip s @ ?after"
    unfolding strip_def by (rule rev_dropWhile_takeWhile)
  moreover have "s = ?before @ ?m"
    by simp
  ultimately have "s = ?before @ strip s @ ?after"
    by simp
  moreover have "\<forall>c \<in> set (?before @ ?after). isspace c"
    by (auto dest: set_takeWhileD)
  ultimately show ?thesis
    by blast
qed

lemma strip_ends:
  assumes "strip s \<noteq> []"
  shows "\<not> isspace (hd (strip s)) \<and> \<not> isspace (last (strip s))"
proof -
  let ?m = "dropWhile isspace s"
  let ?d = "dropWhile isspace (rev ?m)"
  have s: "strip s = rev ?d"
    by (simp add: strip_def)
  with assms have d: "?d \<noteq> []"
    by simp
  then have "\<not> isspace (hd ?d)"
    by (rule hd_dropWhile)
  with d have l: "\<not> isspace (last (strip s))"
    by (simp add: s last_rev)
  have m: "?m \<noteq> []"
  proof
    assume empty: "?m = []"
    have "?d = []"
      unfolding empty by simp
    with d show False ..
  qed
  then have hm: "\<not> isspace (hd ?m)"
    by (rule hd_dropWhile)
  have "?m = strip s @ rev (takeWhile isspace (rev ?m))"
    unfolding strip_def by (rule rev_dropWhile_takeWhile)
  then have "hd ?m = hd (strip s @ rev (takeWhile isspace (rev ?m)))"
    by (rule arg_cong)
  with assms have "hd ?m = hd (strip s)"
    by simp
  with hm l show ?thesis
    by simp
qed

lemma replace_absent: "c \<in> set old \<Longrightarrow> c \<notin> set s \<Longrightarrow> replace old new s = s"
proof (induction old new s rule: replace.induct)
  case (1 old new s)
  from "1.prems" have old: "old \<noteq> []"
    by auto
  show ?case
  proof (cases "s = []")
    case True
    with old show ?thesis
      by (subst replace.simps) simp
  next
    case False
    have no_prefix: "\<not> prefix old s"
    proof
      assume "prefix old s"
      then have "set old \<subseteq> set s"
        by (rule set_mono_prefix)
      with "1.prems" show False
        by blast
    qed
    from "1.prems" False have "c \<notin> set (tl s)"
      by (auto dest: list.set_sel(2))
    with "1.IH"(2) [OF old False no_prefix "1.prems"(1)] have "replace old new (tl s) = tl s" .
    with old False no_prefix show ?thesis
      by (subst replace.simps) simp
  qed
qed

lemma replace_single: "replace [a] [b] s = map (\<lambda>c. if c = a then b else c) s"
proof (induction s)
  case Nil
  show ?case
    by (subst replace.simps) simp
next
  case (Cons c s)
  then show ?case
    by (subst replace.simps) auto
qed

lemma universal_newlines_no_CR: "CR \<notin> set (universal_newlines s)"
  by (auto simp: universal_newlines_def replace_single CR_def LF_def)

lemma universal_newlines_unchanged: "CR \<notin> set s \<longrightarrow> universal_newlines s = s"
  by (simp add: universal_newlines_def replace_absent [of CR "[CR, LF]"]
      replace_absent [of CR "[CR]"])

lemma lower_char_not_upper: "\<not> isupper (lower_char c)"
proof (cases "isupper c")
  case False
  then show ?thesis
    by (simp add: lower_char_def)
next
  case True
  let ?n = "of_char c :: nat"
  from True have range: "(65 \<le> ?n \<and> ?n \<le> 90) \<or> (192 \<le> ?n \<and> ?n \<le> 222)"
    by (auto simp: isupper_def Let_def)
  then have "(?n + 32) mod 256 = ?n + 32"
    by auto
  then have "of_char (char_of (?n + 32)) = ?n + 32"
    by simp
  with range have "\<not> isupper (char_of (?n + 32))"
    by (auto simp: isupper_def Let_def)
  with True show ?thesis
    by (simp add: lower_char_def)
qed

lemma lower_no_upper: "\<forall>c \<in> set (lower s). \<not> isupper c"
  by (simp add: lower_def lower_char_not_upper)

lemma lower_keeps_others: "\<not> isupper c \<Longrightarrow> lower_char c = c"
  by (simp add: lower_char_def)

lemma whisper_not_unsupported_engine: "snd (whisper_cpp_transcription e self) \<noteq> Inl ValueError_unsupported_engine"
  by (simp add: whisper_cpp_transcription_def run_checked_def
      split: run_outcome.splits option.splits contents.splits)

lemma llama_not_unsupported_engine: "snd (llama_translation e self t) \<noteq> Inl ValueError_unsupported_engine"
  by (simp add: llama_translation_def run_checked_def split: run_outcome.splits)

lemma translate_unsupported_engine_iff:
  "returned (translate e self) = Inl ValueError_unsupported_engine \<longleftrightarrow> transcription_model self \<noteq> ''whisper_cpp''"
proof (cases "transcription_model self = ''whisper_cpp''")
  case False
  then show ?thesis
    by (simp add: translate_def)
next
  case True
  obtain heard r where w: "whisper_cpp_transcription e self = (heard, r)"
    by (cases "whisper_cpp_transcription e self")
  with whisper_not_unsupported_engine [of e self] have r: "r \<noteq> Inl ValueError_unsupported_engine"
    by simp
  have "returned (translate e self) \<noteq> Inl ValueError_unsupported_engine"
  proof (cases r)
    case (Inl x)
    with True w r show ?thesis
      by (simp add: translate_def)
  next
    case (Inr t)
    obtain said r' where l: "llama_translation e self t = (said, r')"
      by (cases "llama_translation e self t")
    with llama_not_unsupported_engine [of e self t] have "r' \<noteq> Inl ValueError_unsupported_engine"
      by simp
    with True w Inr l show ?thesis
      by (cases r') (simp_all add: translate_def Let_def)
  qed
  with True show ?thesis
    by simp
qed

lemma parse_args_choice:
  "parse_args cl = Inr args \<Longrightarrow> args_transcription_model args = ''whisper_cpp''"
  by (auto simp: parse_args_def choices_def split: option.splits if_splits)

subsection \<open>The scenarios, evaluated\<close>

lemma lower_English: "lower ''English'' = ''english''"
  by code_simp

lemma lower_German: "lower ''German'' = ''german''"
  by code_simp

lemma job_A_fields:
  "job_A = \<lparr>pre_recorded = True, transcription_model = ''whisper_cpp'', filepath = ''a.wav'',
            input_language = ''english'', output_language = ''german'', elapsed_time = 0\<rparr>"
  by (simp add: job_A_def GameTranslator_init_def lower_English lower_German)

lemma whisper_command_job_A:
  "whisper_command job_A =
     [''./whisper.cpp/main'', ''-m'', ''./whisper.cpp/models/ggml-base.en.bin'',
      ''-f'', ''a.wav'', ''-l'', ''english'', ''-otxt'']"
  by (simp add: job_A_fields whisper_command_def whisper_path_def model_path_def)

lemma result_file_job_A: "result_file job_A = ''a.wav''"
  by (simp add: job_A_fields result_file_def replace.simps)

lemma strip_hello: "strip '' Hello world\<newline>'' = ''Hello world''"
  by (simp add: strip_def isspace_def)

lemma strip_hallo: "strip ''  Hallo Welt\<newline>'' = ''Hallo Welt''"
  by (simp add: strip_def isspace_def)

lemma newlines_hello: "universal_newlines '' Hello world\<newline>'' = '' Hello world\<newline>''"
  using universal_newlines_unchanged [of "'' Hello world\<newline>''"] by (simp add: CR_def)

lemma newlines_hallo: "universal_newlines ''  Hallo Welt\<newline>'' = ''  Hallo Welt\<newline>''"
  using universal_newlines_unchanged [of "''  Hallo Welt\<newline>''"] by (simp add: CR_def)

lemma strip_bonjour: "strip ''Bonjour'' = ''Bonjour''"
  by (simp add: strip_def isspace_def)

lemma newlines_bonjour: "universal_newlines ''Bonjour'' = ''Bonjour''"
  using universal_newlines_unchanged [of "''Bonjour''"] by (simp add: CR_def)

lemma whisper_env_A:
  "whisper_cpp_transcription env_A job_A =
     ([Subprocess_run (whisper_command job_A), Open_read ''a.wav''], Inr ''Hello world'')"
  by (simp add: whisper_cpp_transcription_def run_checked_def result_file_job_A strip_hello
      newlines_hello whisper_command_job_A env_A_def)
     (simp add: job_A_fields)

lemma whisper_env_B:
  "whisper_cpp_transcription env_B job_A =
     ([Subprocess_run (whisper_command job_A),
       Print (Whisper_error (CalledProcessError 1 (whisper_command job_A)))], Inr [])"
  by (simp add: whisper_cpp_transcription_def run_checked_def env_B_def)
     (simp add: job_A_fields)

lemma llama_env_A: "llama_translation env_A job_A ''Hello world'' =
    ([Subprocess_run (llama_command job_A ''Hello world'')], Inr ''Hallo Welt'')"
  by (simp add: llama_translation_def run_checked_def llama_command_def env_A_def strip_hallo
      newlines_hallo)

lemma reaches_end_env_A: "reaches_end env_A job_A"
  by (simp add: reaches_end_def whisper_env_A llama_env_A) (simp add: job_A_fields)

lemma whisper_env_D:
  "whisper_cpp_transcription env_D job_A =
     ([Subprocess_run (whisper_command job_A), Open_read ''a.wav''], Inr ''Bonjour'')"
  by (simp add: whisper_cpp_transcription_def run_checked_def result_file_job_A
      whisper_command_job_A env_D_def newlines_bonjour strip_bonjour)
     (simp add: job_A_fields)

lemma llama_env_D:
  "llama_translation env_D job_A ''Bonjour'' =
     ([Subprocess_run (llama_command job_A ''Bonjour''),
       Print (Llama_error (CalledProcessError 1 (llama_command job_A ''Bonjour'')))], Inr [])"
  by (simp add: llama_translation_def run_checked_def llama_command_def env_D_def)

lemma reaches_end_env_D: "reaches_end env_D job_A"
  by (simp add: reaches_end_def whisper_env_D llama_env_D) (simp add: job_A_fields)

lemma returned_env_D: "returned (translate env_D job_A) = Inr []"
  using translate_reaches_end [OF reaches_end_env_D]
  by (auto simp: whisper_env_D llama_env_D)

lemma newlines_crlf_hello:
  "universal_newlines (''Hello'' @ [CR, LF] @ ''world'' @ [CR, LF]) =
     ''Hello'' @ [LF] @ ''world'' @ [LF]"
  by (simp add: universal_newlines_def CR_def LF_def replace.simps)

lemma newlines_crlf_hallo:
  "universal_newlines (''Hallo'' @ [CR, LF] @ ''Welt'' @ [CR, LF]) =
     ''Hallo'' @ [LF] @ ''Welt'' @ [LF]"
  by (simp add: universal_newlines_def CR_def LF_def replace.simps)

lemma strip_crlf_hello:
  "strip (universal_newlines (''Hello'' @ [CR, LF] @ ''world'' @ [CR, LF])) =
     ''Hello'' @ [LF] @ ''world''"
  unfolding newlines_crlf_hello by (simp add: strip_def isspace_def LF_def)

lemma strip_crlf_hallo:
  "strip (universal_newlines (''Hallo'' @ [CR, LF] @ ''Welt'' @ [CR, LF])) =
     ''Hallo'' @ [LF] @ ''Welt''"
  unfolding newlines_crlf_hallo by (simp add: strip_def isspace_def LF_def)

lemma whisper_env_crlf:
  "whisper_cpp_transcription env_crlf job_A =
     ([Subprocess_run (whisper_command job_A), Open_read ''a.wav''],
      Inr (''Hello'' @ [LF] @ ''world''))"
  by (simp add: whisper_cpp_transcription_def run_checked_def result_file_job_A
      whisper_command_job_A env_crlf_def strip_crlf_hello [simplified])
     (simp add: job_A_fields)

lemma llama_env_crlf:
  "llama_translation env_crlf job_A ''Hello'' =
     ([Subprocess_run (llama_command job_A ''Hello'')], Inr (''Hallo'' @ [LF] @ ''Welt''))"
  by (simp add: llama_translation_def run_checked_def llama_command_def env_crlf_def
      strip_crlf_hallo [simplified])

lemma returned_env_nul:
  "returned (translate env_nul job_nul) = Inl (ValueError_embedded_null (whisper_command job_nul))"
proof -
  have engine: "transcription_model job_nul = ''whisper_cpp''" and pre: "pre_recorded job_nul"
    by (simp_all add: job_nul_def GameTranslator_init_def)
  have "list_ex (\<lambda>arg. CHR 0x00 \<in> set arg) (whisper_command job_nul)"
    by (simp add: whisper_command_def job_nul_def GameTranslator_init_def)
  then have "subprocess_run env_nul (whisper_command job_nul) = Rejected"
    by (simp add: env_nul_def)
  with pre have "whisper_cpp_transcription env_nul job_nul =
      ([Subprocess_run (whisper_command job_nul)],
       Inl (ValueError_embedded_null (whisper_command job_nul)))"
    by (simp add: whisper_cpp_transcription_def run_checked_def)
  with engine show ?thesis
    by (simp add: translate_def)
qed

lemma clock_difference: "clock 1 - clock 0 = 7 / 2"
  unfolding clock_def by simp

lemma returned_env_A: "returned (translate env_A job_A) = Inr ''Hallo Welt''"
  using translate_reaches_end [OF reaches_end_env_A]
  by (auto simp: whisper_env_A llama_env_A)

lemma parse_args_cl_A:
  "parse_args cl_A = Inr (Namespace ''a.wav'' ''whisper_cpp'' True ''English'' ''German'')"
  by (simp add: parse_args_def cl_A_def choices_def)

lemma main_env_A: "snd (main env_A cl_A) = Inr ()"
  by (simp add: main_def parse_args_cl_A job_A_def [symmetric] returned_env_A)

section \<open>Configuration errors\<close>

text \<open>
  Claim C7. With \<open>pre_recorded\<close> false the transcription stage raises
  \<open>NotImplementedError\<close> and has caused no event at all by then: in particular it has
  not called \<open>subprocess.run\<close>.
\<close>

theorem whisper_live_not_implemented:
  "\<not> pre_recorded self \<Longrightarrow>
     whisper_cpp_transcription e self = ([], Inl NotImplementedError) \<and>
     commands_run (fst (whisper_cpp_transcription e self)) = []"
  by (simp add: whisper_cpp_transcription_def)

theorem whisper_live_not_implemented_witness:
  "\<not> pre_recorded job_live \<and>
   whisper_cpp_transcription env_A job_live = ([], Inl NotImplementedError) \<and>
   commands_run (fst (whisper_cpp_transcription env_A job_live)) = []"
proof -
  have live: "\<not> pre_recorded job_live"
    by (simp add: job_live_def GameTranslator_init_def)
  from whisper_live_not_implemented [OF live, of env_A] live show ?thesis
    by blast
qed

text \<open>
  Claim C3. With an engine identifier other than \<open>whisper_cpp\<close> the run raises the
  \<open>ValueError\<close> of line 148; all it has done by then is read the clock and print the
  banner, so no command was run and no file was opened.
\<close>

theorem translate_unsupported_engine:
  "transcription_model self \<noteq> ''whisper_cpp'' \<Longrightarrow>
     returned (translate e self) = Inl ValueError_unsupported_engine \<and>
     trace (translate e self) = Time_time # show_translator_info self \<and>
     commands_run (trace (translate e self)) = []"
  by (simp add: translate_def commands_run_show_translator_info)

theorem translate_unsupported_engine_witness:
  "transcription_model job_unknown \<noteq> ''whisper_cpp'' \<and>
   returned (translate env_A job_unknown) = Inl ValueError_unsupported_engine \<and>
   trace (translate env_A job_unknown) = Time_time # show_translator_info job_unknown \<and>
   commands_run (trace (translate env_A job_unknown)) = []"
proof -
  have other: "transcription_model job_unknown \<noteq> ''whisper_cpp''"
    by (simp add: job_unknown_def GameTranslator_init_def)
  from translate_unsupported_engine [OF other, of env_A] other show ?thesis
    by blast
qed

section \<open>The pipeline\<close>

text \<open>
  Claim C1. When the transcription stage returns the empty text, \<open>translate\<close> returns
  the empty text, and all the run has done is read the clock, print the banner, run the
  transcription stage and print the failure message: the translation stage is not
  invoked, so no command of the translation stage, for whatever text, is among the
  commands run. (Every invocation of the translation stage runs its command:
  \<open>commands_run_llama\<close>.)
\<close>

theorem translate_empty_transcription:
  "transcription_model self = ''whisper_cpp'' \<Longrightarrow>
   whisper_cpp_transcription e self = (heard, Inr []) \<Longrightarrow>
     returned (translate e self) = Inr [] \<and>
     trace (translate e self) =
       Time_time # show_translator_info self @ heard @ [Print Transcription_failed] \<and>
     (\<forall>text. llama_command self text \<notin> set (commands_run (trace (translate e self))))"
proof -
  assume engine: "transcription_model self = ''whisper_cpp''"
    and heard: "whisper_cpp_transcription e self = (heard, Inr [])"
  have run: "translate e self =
      \<lparr>trace = Time_time # show_translator_info self @ heard @ [Print Transcription_failed],
       self_after = self, returned = Inr []\<rparr>"
    using engine heard by (simp add: translate_def)
  have "commands_run heard = (if pre_recorded self then [whisper_command self] else [])"
    using commands_run_whisper [of e self] heard by simp
  then have "set (commands_run (trace (translate e self))) \<subseteq> {whisper_command self}"
    by (auto simp: run commands_run_append commands_run_show_translator_info)
  moreover have "llama_command self t \<noteq> whisper_command self" for t
    by (simp add: llama_command_def whisper_command_def)
  ultimately have "\<forall>text. llama_command self text \<notin> set (commands_run (trace (translate e self)))"
    by blast
  with run show ?thesis by simp
qed

theorem translate_empty_transcription_witness:
  "transcription_model job_A = ''whisper_cpp'' \<and>
   whisper_cpp_transcription env_B job_A =
     ([Subprocess_run (whisper_command job_A),
       Print (Whisper_error (CalledProcessError 1 (whisper_command job_A)))], Inr []) \<and>
   returned (translate env_B job_A) = Inr [] \<and>
   commands_run (trace (translate env_B job_A)) =
     [[''./whisper.cpp/main'', ''-m'', ''./whisper.cpp/models/ggml-base.en.bin'',
       ''-f'', ''a.wav'', ''-l'', ''english'', ''-otxt'']]"
proof -
  have engine: "transcription_model job_A = ''whisper_cpp''"
    by (simp add: job_A_fields)
  note run = translate_empty_transcription [OF engine whisper_env_B]
  from run have "commands_run (trace (translate env_B job_A)) = [whisper_command job_A]"
    by (simp add: commands_run_append commands_run_show_translator_info)
  with run engine whisper_env_B show ?thesis
    by (simp add: whisper_command_job_A)
qed

text \<open>
  Claim C2. When the transcription stage returns a text \<open>t\<close> that is not empty, the
  outcome of \<open>translate\<close> is the outcome of the translation stage on \<open>t\<close> (the text it
  returns, or the exception it lets through), and among the commands of the run exactly
  one is an \<open>ollama\<close> command: the one whose prompt is
  \<open>Translate the following text to <output_language>: <t>\<close>.
\<close>

theorem translate_nonempty_transcription:
  "transcription_model self = ''whisper_cpp'' \<Longrightarrow>
   whisper_cpp_transcription e self = (heard, Inr text) \<Longrightarrow>
   text \<noteq> [] \<Longrightarrow>
     returned (translate e self) = snd (llama_translation e self text) \<and>
     filter (\<lambda>c. hd c = ''ollama'') (commands_run (trace (translate e self))) =
       [[''ollama'', ''run'', ''llama3'',
         ''Translate the following text to '' @ output_language self @ '': '' @ text]]"
proof -
  assume engine: "transcription_model self = ''whisper_cpp''"
    and heard: "whisper_cpp_transcription e self = (heard, Inr text)"
    and nonempty: "text \<noteq> []"
  obtain said r where said: "llama_translation e self text = (said, r)"
    by (cases "llama_translation e self text")
  have w: "commands_run heard = (if pre_recorded self then [whisper_command self] else [])"
    using commands_run_whisper [of e self] heard by simp
  have l: "commands_run said = [llama_command self text]"
    using commands_run_llama [of e self "text"] said by simp
  have cmd: "llama_command self text = [''ollama'', ''run'', ''llama3'',
         ''Translate the following text to '' @ output_language self @ '': '' @ text]"
    by (simp add: llama_command_def prompt_def)
  show ?thesis
  proof (cases r)
    case (Inl x)
    then have "translate e self =
        \<lparr>trace = Time_time # show_translator_info self @ heard @ said,
         self_after = self, returned = Inl x\<rparr>"
      using engine heard nonempty said by (simp add: translate_def)
    then show ?thesis
      using Inl said w l hd_whisper_command [of self]
      by (simp add: commands_run_append commands_run_show_translator_info cmd)
  next
    case (Inr translation)
    then have "trace (translate e self) =
        Time_time # show_translator_info self @ heard @ said @
          [Time_time, Set_elapsed_time (time_time e 1 - time_time e 0),
           Print (Elapsed_time (time_time e 1 - time_time e 0))]"
      and "returned (translate e self) = Inr translation"
      using engine heard nonempty said by (simp_all add: translate_def Let_def show_time_def)
    then show ?thesis
      using Inr said w l hd_whisper_command [of self]
      by (simp add: commands_run_append commands_run_show_translator_info cmd)
  qed
qed

theorem translate_nonempty_transcription_witness:
  "transcription_model job_A = ''whisper_cpp'' \<and>
   whisper_cpp_transcription env_A job_A =
     ([Subprocess_run (whisper_command job_A), Open_read ''a.wav''], Inr ''Hello world'') \<and>
   ''Hello world'' \<noteq> [] \<and>
   returned (translate env_A job_A) = Inr ''Hallo Welt'' \<and>
   filter (\<lambda>c. hd c = ''ollama'') (commands_run (trace (translate env_A job_A))) =
     [[''ollama'', ''run'', ''llama3'', ''Translate the following text to german: Hello world'']]"
proof -
  have engine: "transcription_model job_A = ''whisper_cpp''"
    by (simp add: job_A_fields)
  have nonempty: "''Hello world'' \<noteq> []"
    by simp
  have said: "snd (llama_translation env_A job_A ''Hello world'') = Inr ''Hallo Welt''"
    by (simp add: llama_translation_def run_checked_def llama_command_def env_A_def strip_hallo
      newlines_hallo)
  have lang: "output_language job_A = ''german''"
    by (simp add: job_A_fields)
  from translate_nonempty_transcription [OF engine whisper_env_A nonempty] said lang
    engine whisper_env_A
  show ?thesis by simp
qed

section \<open>Failures of the external processes\<close>

text \<open>
  Claim C4, as amended. When the external process of a stage exits with a non-zero code,
  the stage prints its error message and returns the empty text: no exception leaves
  the stage. When the process cannot be started, neither stage handles the exception
  (the only handler is for \<open>CalledProcessError\<close>): it leaves the stage, with nothing
  printed and no text returned. The same holds of the translation stage when the captured
  output does not decode as text, whatever the return code: \<open>subprocess.run\<close> raises
  \<open>UnicodeDecodeError\<close> before it looks at the return code. The transcription stage
  captures no output, and reports a non-zero exit whatever the process wrote.
\<close>

theorem stage_process_failure:
  "(pre_recorded self \<and> subprocess_run e (whisper_command self) = Exited rc out \<and> rc \<noteq> 0 \<longrightarrow>
      whisper_cpp_transcription e self =
        ([Subprocess_run (whisper_command self),
          Print (Whisper_error (CalledProcessError rc (whisper_command self)))], Inr [])) \<and>
   (subprocess_run e (llama_command self text) = Exited rc out \<and> rc \<noteq> 0 \<longrightarrow>
      llama_translation e self text =
        ([Subprocess_run (llama_command self text),
          Print (Llama_error (CalledProcessError rc (llama_command self text)))], Inr [])) \<and>
   (pre_recorded self \<and> subprocess_run e (whisper_command self) = Spawn_failed \<longrightarrow>
      whisper_cpp_transcription e self =
        ([Subprocess_run (whisper_command self)], Inl (OSError (whisper_command self)))) \<and>
   (subprocess_run e (llama_command self text) = Spawn_failed \<longrightarrow>
      llama_translation e self text =
        ([Subprocess_run (llama_command self text)], Inl (OSError (llama_command self text)))) \<and>
   (pre_recorded self \<and> subprocess_run e (whisper_command self) = Exited_undecodable rc \<and>
    rc \<noteq> 0 \<longrightarrow>
      whisper_cpp_transcription e self =
        ([Subprocess_run (whisper_command self),
          Print (Whisper_error (CalledProcessError rc (whisper_command self)))], Inr [])) \<and>
   (subprocess_run e (llama_command self text) = Exited_undecodable rc \<longrightarrow>
      llama_translation e self text =
        ([Subprocess_run (llama_command self text)], Inl UnicodeDecodeError))"
  by (simp add: whisper_cpp_transcription_def llama_translation_def run_checked_def)

theorem stage_process_failure_witness:
  "pre_recorded job_A \<and>
   subprocess_run env_B (whisper_command job_A) = Exited 1 [] \<and> (1::int) \<noteq> 0 \<and>
   whisper_cpp_transcription env_B job_A =
     ([Subprocess_run (whisper_command job_A),
       Print (Whisper_error (CalledProcessError 1 (whisper_command job_A)))], Inr []) \<and>
   subprocess_run env_B (llama_command job_A ''Bonjour'') = Exited 1 [] \<and>
   llama_translation env_B job_A ''Bonjour'' =
     ([Subprocess_run (llama_command job_A ''Bonjour''),
       Print (Llama_error (CalledProcessError 1 (llama_command job_A ''Bonjour'')))], Inr []) \<and>
   subprocess_run env_no_spawn (whisper_command job_A) = Spawn_failed \<and>
   whisper_cpp_transcription env_no_spawn job_A =
     ([Subprocess_run (whisper_command job_A)], Inl (OSError (whisper_command job_A))) \<and>
   subprocess_run env_no_spawn (llama_command job_A ''Bonjour'') = Spawn_failed \<and>
   llama_translation env_no_spawn job_A ''Bonjour'' =
     ([Subprocess_run (llama_command job_A ''Bonjour'')],
      Inl (OSError (llama_command job_A ''Bonjour''))) \<and>
   subprocess_run env_garbled (whisper_command job_A) = Exited_undecodable 1 \<and>
   whisper_cpp_transcription env_garbled job_A =
     ([Subprocess_run (whisper_command job_A),
       Print (Whisper_error (CalledProcessError 1 (whisper_command job_A)))], Inr []) \<and>
   subprocess_run env_garbled (llama_command job_A ''Bonjour'') = Exited_undecodable 1 \<and>
   llama_translation env_garbled job_A ''Bonjour'' =
     ([Subprocess_run (llama_command job_A ''Bonjour'')], Inl UnicodeDecodeError)"
proof -
  have pre: "pre_recorded job_A"
    by (simp add: job_A_fields)
  have exits: "subprocess_run env_B c = Exited 1 []" for c
    by (simp add: env_B_def)
  have fails: "subprocess_run env_no_spawn c = Spawn_failed" for c
    by (simp add: env_no_spawn_def)
  have garbled: "subprocess_run env_garbled c = Exited_undecodable 1" for c
    by (simp add: env_garbled_def)
  from stage_process_failure [of job_A env_B 1 "[]" "''Bonjour''"]
    stage_process_failure [of job_A env_no_spawn 1 "[]" "''Bonjour''"]
    stage_process_failure [of job_A env_garbled 1 "[]" "''Bonjour''"] pre exits fails garbled
  show ?thesis by simp
qed

text \<open>
  The claim as first stated also promises the empty text and a report when the process
  cannot be started. Where no process can be started, each stage raises instead, and the
  exception of the transcription stage ends \<open>translate\<close>.
\<close>

theorem spawn_failure_counterexample:
  "subprocess_run env_no_spawn (whisper_command job_A) = Spawn_failed \<and>
   whisper_cpp_transcription env_no_spawn job_A =
     ([Subprocess_run (whisper_command job_A)], Inl (OSError (whisper_command job_A))) \<and>
   subprocess_run env_no_spawn (llama_command job_A ''Bonjour'') = Spawn_failed \<and>
   llama_translation env_no_spawn job_A ''Bonjour'' =
     ([Subprocess_run (llama_command job_A ''Bonjour'')],
      Inl (OSError (llama_command job_A ''Bonjour''))) \<and>
   returned (translate env_no_spawn job_A) = Inl (OSError (whisper_command job_A))"
proof -
  have w: "whisper_cpp_transcription env_no_spawn job_A =
     ([Subprocess_run (whisper_command job_A)], Inl (OSError (whisper_command job_A)))"
    by (simp add: whisper_cpp_transcription_def run_checked_def env_no_spawn_def)
       (simp add: job_A_fields)
  have l: "llama_translation env_no_spawn job_A ''Bonjour'' =
     ([Subprocess_run (llama_command job_A ''Bonjour'')],
      Inl (OSError (llama_command job_A ''Bonjour'')))"
    by (simp add: llama_translation_def run_checked_def env_no_spawn_def)
  have engine: "transcription_model job_A = ''whisper_cpp''"
    by (simp add: job_A_fields)
  have t: "returned (translate env_no_spawn job_A) = Inl (OSError (whisper_command job_A))"
    using engine by (simp add: translate_def w)
  from w l t show ?thesis
    by (simp add: env_no_spawn_def)
qed



section \<open>The elapsed time\<close>

text \<open>
  Claim C5, as amended. A new object has \<open>elapsed_time\<close> 0. A run that gets to the end
  of \<open>translate\<close> (the transcription stage returned a text that is not empty and the
  translation stage returned, be it the empty text of a failed translation) assigns
  \<open>elapsed_time\<close> exactly once, the second clock reading minus the first, and the
  assignment is the last step of the run but for the printing of the time. Every other run
  (the short-circuit on an empty transcription, and the runs that an exception ends)
  assigns nothing and leaves the object as it was. Nothing but \<open>translate\<close> changes the
  object: the stages and the two printing methods return no object at all.
\<close>

theorem translate_elapsed_time:
  "elapsed_time (GameTranslator_init m f p il ol) = 0 \<and>
   elapsed_writes (trace (translate e self)) =
     (if reaches_end e self then [time_time e 1 - time_time e 0] else []) \<and>
   self_after (translate e self) =
     (if reaches_end e self then self\<lparr>elapsed_time := time_time e 1 - time_time e 0\<rparr>
      else self) \<and>
   (reaches_end e self \<longrightarrow>
      (\<exists>before. elapsed_writes before = [] \<and>
         trace (translate e self) =
           before @ [Time_time, Set_elapsed_time (time_time e 1 - time_time e 0),
                     Print (Elapsed_time (time_time e 1 - time_time e 0))]))"
proof (cases "reaches_end e self")
  case False
  with translate_stops_early [OF False] show ?thesis
    by (simp add: GameTranslator_init_def)
next
  case True
  from translate_reaches_end [OF True] obtain heard t said translation where
    w: "whisper_cpp_transcription e self = (heard, Inr t)" and
    l: "llama_translation e self t = (said, Inr translation)" and
    run: "translate e self =
             \<lparr>trace = Time_time # show_translator_info self @ heard @ said @
                       [Time_time, Set_elapsed_time (time_time e 1 - time_time e 0),
                        Print (Elapsed_time (time_time e 1 - time_time e 0))],
              self_after = self\<lparr>elapsed_time := time_time e 1 - time_time e 0\<rparr>,
              returned = Inr translation\<rparr>"
    by blast
  let ?before = "Time_time # show_translator_info self @ heard @ said"
  have before: "elapsed_writes ?before = []"
    using elapsed_writes_heard [OF w] elapsed_writes_said [OF l]
    by (simp add: elapsed_writes_append elapsed_writes_show_translator_info)
  have "trace (translate e self) =
      ?before @ [Time_time, Set_elapsed_time (time_time e 1 - time_time e 0),
                 Print (Elapsed_time (time_time e 1 - time_time e 0))]"
    by (simp add: run)
  with before have last: "\<exists>before. elapsed_writes before = [] \<and>
         trace (translate e self) =
           before @ [Time_time, Set_elapsed_time (time_time e 1 - time_time e 0),
                     Print (Elapsed_time (time_time e 1 - time_time e 0))]"
    by blast
  then have "elapsed_writes (trace (translate e self)) = [time_time e 1 - time_time e 0]"
    by (auto simp: elapsed_writes_append)
  with True last run show ?thesis
    by (simp add: GameTranslator_init_def)
qed

theorem translate_elapsed_time_witness:
  "reaches_end env_A job_A \<and>
   elapsed_time job_A = 0 \<and>
   elapsed_writes (trace (translate env_A job_A)) = [7 / 2] \<and>
   elapsed_time (self_after (translate env_A job_A)) = 7 / 2 \<and>
   (\<exists>before. elapsed_writes before = [] \<and>
      trace (translate env_A job_A) =
        before @ [Time_time, Set_elapsed_time (7 / 2), Print (Elapsed_time (7 / 2))]) \<and>
   reaches_end env_D job_A \<and>
   returned (translate env_D job_A) = Inr [] \<and>
   elapsed_writes (trace (translate env_D job_A)) = [7 / 2] \<and>
   elapsed_time (self_after (translate env_D job_A)) = 7 / 2"
proof -
  have "time_time env_A = clock"
    by (simp add: env_A_def)
  then have a: "time_time env_A 1 - time_time env_A 0 = 7 / 2"
    by (simp only: clock_difference)
  have "time_time env_D = clock"
    by (simp add: env_D_def)
  then have d: "time_time env_D 1 - time_time env_D 0 = 7 / 2"
    by (simp only: clock_difference)
  note run_A = translate_elapsed_time
         [of "''whisper_cpp''" "''a.wav''" True "''English''" "''German''" env_A job_A,
          unfolded a, folded job_A_def]
  note run_D = translate_elapsed_time
         [of "''whisper_cpp''" "''a.wav''" True "''English''" "''German''" env_D job_A,
          unfolded d, folded job_A_def]
  from run_A run_D reaches_end_env_A reaches_end_env_D returned_env_D show ?thesis
    by simp
qed

text \<open>
  The claim as first stated has the assignment in every run. In scenario B the
  transcription process exits with code 1: the run returns the empty text, two clock
  readings would be 3.5 apart, and \<open>elapsed_time\<close> is never assigned and still 0.
\<close>

theorem short_circuit_counterexample:
  "returned (translate env_B job_A) = Inr [] \<and>
   elapsed_writes (trace (translate env_B job_A)) = [] \<and>
   elapsed_time (self_after (translate env_B job_A)) = 0 \<and>
   time_time env_B 1 - time_time env_B 0 = 7 / 2"
proof -
  have engine: "transcription_model job_A = ''whisper_cpp''"
    by (simp add: job_A_fields)
  have run: "translate env_B job_A =
      \<lparr>trace = Time_time # show_translator_info job_A @
                 [Subprocess_run (whisper_command job_A),
                  Print (Whisper_error (CalledProcessError 1 (whisper_command job_A))),
                  Print Transcription_failed],
       self_after = job_A, returned = Inr []\<rparr>"
    using engine by (simp add: translate_def whisper_env_B)
  have zero: "elapsed_time job_A = 0"
    by (simp add: job_A_fields)
  have "time_time env_B = clock"
    by (simp add: env_B_def)
  then have "time_time env_B 1 - time_time env_B 0 = 7 / 2"
    by (simp only: clock_difference)
  with zero show ?thesis
    by (simp add: run elapsed_writes_append elapsed_writes_show_translator_info)
qed

section \<open>What the stages return on success\<close>

text \<open>
  Claim C8, as amended. When its process exits with code 0 and the result file holds a
  text, the transcription stage returns that text as text mode reads it (the line ends
  translated) and then stripped; when its process exits with code 0, the translation
  stage returns the captured standard output, likewise read in text mode and then
  stripped. The translation of the line ends leaves no carriage return and changes
  nothing in a text without one; and \<open>strip s\<close> is \<open>s\<close> without a prefix and a suffix
  made of whitespace only, neither beginning nor ending with a whitespace character.
\<close>

theorem stages_return_stripped:
  "(pre_recorded self \<and>
    (subprocess_run e (whisper_command self) = Exited 0 out \<or>
     subprocess_run e (whisper_command self) = Exited_undecodable 0) \<and>
    open_read e (result_file self) = Some (Text content) \<longrightarrow>
      whisper_cpp_transcription e self =
        ([Subprocess_run (whisper_command self), Open_read (result_file self)],
         Inr (strip (universal_newlines content)))) \<and>
   (subprocess_run e (llama_command self text) = Exited 0 out \<longrightarrow>
      llama_translation e self text =
        ([Subprocess_run (llama_command self text)], Inr (strip (universal_newlines out)))) \<and>
   CR \<notin> set (universal_newlines s) \<and>
   (CR \<notin> set s \<longrightarrow> universal_newlines s = s) \<and>
   (\<exists>before after. s = before @ strip s @ after \<and> (\<forall>c \<in> set (before @ after). isspace c)) \<and>
   (strip s \<noteq> [] \<longrightarrow> \<not> isspace (hd (strip s)) \<and> \<not> isspace (last (strip s)))"
proof -
  have "pre_recorded self \<and>
    (subprocess_run e (whisper_command self) = Exited 0 out \<or>
     subprocess_run e (whisper_command self) = Exited_undecodable 0) \<and>
    open_read e (result_file self) = Some (Text content) \<longrightarrow>
      whisper_cpp_transcription e self =
        ([Subprocess_run (whisper_command self), Open_read (result_file self)],
         Inr (strip (universal_newlines content)))"
    by (auto simp: whisper_cpp_transcription_def run_checked_def)
  moreover have "subprocess_run e (llama_command self text) = Exited 0 out \<longrightarrow>
      llama_translation e self text =
        ([Subprocess_run (llama_command self text)], Inr (strip (universal_newlines out)))"
    by (simp add: llama_translation_def run_checked_def)
  ultimately show ?thesis
    using strip_decompose [of s] strip_ends [of s]
      universal_newlines_no_CR [of s] universal_newlines_unchanged [of s]
    by blast
qed

theorem stages_return_stripped_witness:
  "pre_recorded job_A \<and>
   subprocess_run env_crlf (whisper_command job_A) = Exited 0 [] \<and>
   open_read env_crlf (result_file job_A) =
     Some (Text (''Hello'' @ [CR, LF] @ ''world'' @ [CR, LF])) \<and>
   whisper_cpp_transcription env_crlf job_A =
     ([Subprocess_run (whisper_command job_A), Open_read ''a.wav''],
      Inr (''Hello'' @ [LF] @ ''world'')) \<and>
   subprocess_run env_crlf (llama_command job_A ''Hello'') =
     Exited 0 (''Hallo'' @ [CR, LF] @ ''Welt'' @ [CR, LF]) \<and>
   llama_translation env_crlf job_A ''Hello'' =
     ([Subprocess_run (llama_command job_A ''Hello'')], Inr (''Hallo'' @ [LF] @ ''Welt'')) \<and>
   CR \<notin> set ''  Hallo Welt\<newline>'' \<and>
   universal_newlines ''  Hallo Welt\<newline>'' = ''  Hallo Welt\<newline>'' \<and>
   strip ''  Hallo Welt\<newline>'' \<noteq> [] \<and>
   \<not> isspace (hd (strip ''  Hallo Welt\<newline>'')) \<and>
   \<not> isspace (last (strip ''  Hallo Welt\<newline>''))"
proof -
  have pre: "pre_recorded job_A"
    by (simp add: job_A_fields)
  have w: "subprocess_run env_crlf (whisper_command job_A) = Exited 0 []"
    by (simp add: env_crlf_def whisper_command_job_A)
  have f: "open_read env_crlf (result_file job_A) =
      Some (Text (''Hello'' @ [CR, LF] @ ''world'' @ [CR, LF]))"
    by (simp add: env_crlf_def result_file_job_A)
  have l: "subprocess_run env_crlf (llama_command job_A ''Hello'') =
      Exited 0 (''Hallo'' @ [CR, LF] @ ''Welt'' @ [CR, LF])"
    by (simp add: env_crlf_def llama_command_def)
  have c: "CR \<notin> set ''  Hallo Welt\<newline>''"
    by (simp add: CR_def)
  have n: "strip ''  Hallo Welt\<newline>'' \<noteq> []"
    by (simp add: strip_hallo)
  from stages_return_stripped
         [of job_A env_crlf "[]" "''Hello'' @ [CR, LF] @ ''world'' @ [CR, LF]" "''Hello''"
             "''  Hallo Welt\<newline>''"]
    pre w f c n
  have "whisper_cpp_transcription env_crlf job_A =
        ([Subprocess_run (whisper_command job_A), Open_read (result_file job_A)],
         Inr (strip (universal_newlines (''Hello'' @ [CR, LF] @ ''world'' @ [CR, LF]))))"
    and "universal_newlines ''  Hallo Welt\<newline>'' = ''  Hallo Welt\<newline>''"
    and "\<not> isspace (hd (strip ''  Hallo Welt\<newline>''))"
    and "\<not> isspace (last (strip ''  Hallo Welt\<newline>''))"
    by blast+
  moreover
  from stages_return_stripped
         [of job_A env_crlf "''Hallo'' @ [CR, LF] @ ''Welt'' @ [CR, LF]" "[]" "''Hello''" "[]"] l
  have "llama_translation env_crlf job_A ''Hello'' =
        ([Subprocess_run (llama_command job_A ''Hello'')],
         Inr (strip (universal_newlines (''Hallo'' @ [CR, LF] @ ''Welt'' @ [CR, LF]))))"
    by blast
  ultimately show ?thesis
    using pre w f l c n
    by (simp add: strip_crlf_hello [simplified] strip_crlf_hallo [simplified] result_file_job_A)
qed

text \<open>
  The claim as first stated has \<open>strip\<close> of the contents of the file, and of the output,
  with no other transformation. Where the file and the output have the line ends of
  Windows, what each stage returns has a line feed in the place of the carriage return
  and line feed inside the text: it is not \<open>strip\<close> of what the file holds or of what
  the process wrote, which keeps the carriage return.
\<close>

theorem line_ends_counterexample:
  "open_read env_crlf (result_file job_A) =
     Some (Text (''Hello'' @ [CR, LF] @ ''world'' @ [CR, LF])) \<and>
   snd (whisper_cpp_transcription env_crlf job_A) = Inr (''Hello'' @ [LF] @ ''world'') \<and>
   strip (''Hello'' @ [CR, LF] @ ''world'' @ [CR, LF]) = ''Hello'' @ [CR, LF] @ ''world'' \<and>
   snd (whisper_cpp_transcription env_crlf job_A) \<noteq>
     Inr (strip (''Hello'' @ [CR, LF] @ ''world'' @ [CR, LF])) \<and>
   subprocess_run env_crlf (llama_command job_A ''Hello'') =
     Exited 0 (''Hallo'' @ [CR, LF] @ ''Welt'' @ [CR, LF]) \<and>
   snd (llama_translation env_crlf job_A ''Hello'') = Inr (''Hallo'' @ [LF] @ ''Welt'') \<and>
   strip (''Hallo'' @ [CR, LF] @ ''Welt'' @ [CR, LF]) = ''Hallo'' @ [CR, LF] @ ''Welt'' \<and>
   snd (llama_translation env_crlf job_A ''Hello'') \<noteq>
     Inr (strip (''Hallo'' @ [CR, LF] @ ''Welt'' @ [CR, LF]))"
proof -
  have f: "open_read env_crlf (result_file job_A) =
      Some (Text (''Hello'' @ [CR, LF] @ ''world'' @ [CR, LF]))"
    by (simp add: env_crlf_def result_file_job_A)
  have l: "subprocess_run env_crlf (llama_command job_A ''Hello'') =
      Exited 0 (''Hallo'' @ [CR, LF] @ ''Welt'' @ [CR, LF])"
    by (simp add: env_crlf_def llama_command_def)
  have raw_hello: "strip (''Hello'' @ [CR, LF] @ ''world'' @ [CR, LF]) = ''Hello'' @ [CR, LF] @ ''world''"
    by (simp add: strip_def isspace_def CR_def LF_def)
  have raw_hallo: "strip (''Hallo'' @ [CR, LF] @ ''Welt'' @ [CR, LF]) = ''Hallo'' @ [CR, LF] @ ''Welt''"
    by (simp add: strip_def isspace_def CR_def LF_def)
  have differ: "CR \<noteq> LF"
    by (simp add: CR_def LF_def)
  from f l raw_hello raw_hallo differ show ?thesis
    by (simp add: whisper_env_crlf llama_env_crlf)
qed

section \<open>The languages\<close>

text \<open>
  Claim C9. The constructor stores \<open>lower\<close> of the two languages given: texts of the
  same length with no capital letter left, in which every character that is not a
  capital letter is the one given. The command of the transcription stage carries the
  stored input language after \<open>-l\<close>, and the prompt of the translation stage carries
  the stored output language.
\<close>

theorem languages_lowercased:
  "input_language (GameTranslator_init m f p il ol) = lower il \<and>
   output_language (GameTranslator_init m f p il ol) = lower ol \<and>
   (\<forall>c \<in> set (lower il) \<union> set (lower ol). \<not> isupper c) \<and>
   length (lower il) = length il \<and> length (lower ol) = length ol \<and>
   (\<forall>i < length il. \<not> isupper (il ! i) \<longrightarrow> lower il ! i = il ! i) \<and>
   (\<forall>i < length ol. \<not> isupper (ol ! i) \<longrightarrow> lower ol ! i = ol ! i) \<and>
   commands_run (fst (whisper_cpp_transcription e (GameTranslator_init m f True il ol))) =
     [[whisper_path, ''-m'', model_path, ''-f'', f, ''-l'', lower il, ''-otxt'']] \<and>
   commands_run (fst (llama_translation e (GameTranslator_init m f p il ol) text)) =
     [[''ollama'', ''run'', ''llama3'',
       ''Translate the following text to '' @ lower ol @ '': '' @ text]]"
proof -
  have "\<forall>c \<in> set (lower il) \<union> set (lower ol). \<not> isupper c"
    using lower_no_upper [of il] lower_no_upper [of ol] by blast
  moreover have "\<forall>i < length s. \<not> isupper (s ! i) \<longrightarrow> lower s ! i = s ! i" for s
    by (simp add: lower_def lower_keeps_others)
  moreover have "length (lower s) = length s" for s
    by (simp add: lower_def)
  moreover have "commands_run (fst (whisper_cpp_transcription e (GameTranslator_init m f True il ol))) =
     [[whisper_path, ''-m'', model_path, ''-f'', f, ''-l'', lower il, ''-otxt'']]"
    by (simp add: commands_run_whisper) (simp add: GameTranslator_init_def whisper_command_def)
  moreover have "commands_run (fst (llama_translation e (GameTranslator_init m f p il ol) text)) =
     [[''ollama'', ''run'', ''llama3'',
       ''Translate the following text to '' @ lower ol @ '': '' @ text]]"
    by (simp add: commands_run_llama) (simp add: GameTranslator_init_def llama_command_def prompt_def)
  ultimately show ?thesis
    by (simp add: GameTranslator_init_def)
qed

theorem languages_lowercased_witness:
  "input_language job_A = ''english'' \<and>
   output_language job_A = ''german'' \<and>
   \<not> isupper (''english'' ! 0) \<and> \<not> isupper (''german'' ! 0) \<and>
   commands_run (fst (whisper_cpp_transcription env_A job_A)) =
     [[''./whisper.cpp/main'', ''-m'', ''./whisper.cpp/models/ggml-base.en.bin'',
       ''-f'', ''a.wav'', ''-l'', ''english'', ''-otxt'']] \<and>
   commands_run (fst (llama_translation env_A job_A ''Hello world'')) =
     [[''ollama'', ''run'', ''llama3'', ''Translate the following text to german: Hello world'']]"
proof -
  note job = languages_lowercased
         [of "''whisper_cpp''" "''a.wav''" True "''English''" "''German''" env_A "''Hello world''",
          folded job_A_def, unfolded lower_English lower_German]
  from job have "\<forall>c \<in> set ''english'' \<union> set ''german''. \<not> isupper c"
    by blast
  then have "\<not> isupper (''english'' ! 0) \<and> \<not> isupper (''german'' ! 0)"
    by simp
  with job show ?thesis
    by (simp add: whisper_path_def model_path_def)
qed

section \<open>The command-line entry point\<close>

text \<open>
  Claim C10. Whatever the command line, \<open>main\<close> never ends with the exception that
  line 148 raises for an unsupported engine: the arguments that the parser accepts have
  \<open>whisper_cpp\<close> as their transcription model, and a command line with another value
  (or none) is stopped by the parser, with exit status 2, before any object is
  constructed. \<open>translate\<close> itself ends with that exception exactly when the object
  was constructed with another engine identifier. (A run with the engine
  \<open>whisper_cpp\<close> can end with another \<open>ValueError\<close>, that of a command refused by
  \<open>subprocess.run\<close>, or with a \<open>UnicodeDecodeError\<close>: these are not the exception
  of line 148.)
\<close>

theorem main_never_unsupported_engine:
  "snd (main e cl) \<noteq> Inl ValueError_unsupported_engine \<and>
   (\<forall>args. parse_args cl = Inr args \<longrightarrow> args_transcription_model args = ''whisper_cpp'') \<and>
   (given_transcription_model cl \<noteq> Some ''whisper_cpp'' \<longrightarrow>
      main e cl = ([Print Usage_error], Inl (SystemExit 2))) \<and>
   (returned (translate e self) = Inl ValueError_unsupported_engine \<longleftrightarrow>
      transcription_model self \<noteq> ''whisper_cpp'')"
proof -
  have "snd (main e cl) \<noteq> Inl ValueError_unsupported_engine"
  proof (cases "parse_args cl")
    case (Inl x)
    then have "x = SystemExit 2"
      by (auto simp: parse_args_def split: option.splits if_splits)
    with Inl show ?thesis
      by (simp add: main_def)
  next
    case (Inr args)
    let ?translator = "GameTranslator_init (args_transcription_model args) (args_file args)
        (args_pre_recorded args) (args_input_language args) (args_output_language args)"
    from parse_args_choice [OF Inr] have "transcription_model ?translator = ''whisper_cpp''"
      by (simp add: GameTranslator_init_def)
    then have "returned (translate e ?translator) \<noteq> Inl ValueError_unsupported_engine"
      by (simp add: translate_unsupported_engine_iff)
    with Inr show ?thesis
      by (auto simp: main_def Let_def split: sum.splits)
  qed
  moreover have "given_transcription_model cl \<noteq> Some ''whisper_cpp'' \<longrightarrow>
      main e cl = ([Print Usage_error], Inl (SystemExit 2))"
    by (auto simp: main_def parse_args_def choices_def split: option.splits)
  ultimately show ?thesis
    using parse_args_choice [of cl] translate_unsupported_engine_iff [of e self] by blast
qed

theorem main_never_unsupported_engine_witness:
  "parse_args cl_A = Inr (Namespace ''a.wav'' ''whisper_cpp'' True ''English'' ''German'') \<and>
   args_transcription_model (Namespace ''a.wav'' ''whisper_cpp'' True ''English'' ''German'') =
     ''whisper_cpp'' \<and>
   snd (main env_A cl_A) = Inr () \<and>
   given_transcription_model cl_unknown \<noteq> Some ''whisper_cpp'' \<and>
   main env_A cl_unknown = ([Print Usage_error], Inl (SystemExit 2)) \<and>
   transcription_model job_unknown \<noteq> ''whisper_cpp'' \<and>
   returned (translate env_A job_unknown) = Inl ValueError_unsupported_engine \<and>
   transcription_model job_nul = ''whisper_cpp'' \<and>
   returned (translate env_nul job_nul) = Inl (ValueError_embedded_null (whisper_command job_nul)) \<and>
   returned (translate env_nul job_nul) \<noteq> Inl ValueError_unsupported_engine"
proof -
  have given: "given_transcription_model cl_unknown \<noteq> Some ''whisper_cpp''"
    by (simp add: cl_unknown_def)
  have other: "transcription_model job_unknown \<noteq> ''whisper_cpp''"
    by (simp add: job_unknown_def GameTranslator_init_def)
  from main_never_unsupported_engine [of env_A cl_unknown job_unknown] given other
  have "main env_A cl_unknown = ([Print Usage_error], Inl (SystemExit 2))"
    and "returned (translate env_A job_unknown) = Inl ValueError_unsupported_engine"
    by blast+
  moreover
  from main_never_unsupported_engine [of env_A cl_A job_A] parse_args_cl_A
  have "args_transcription_model (Namespace ''a.wav'' ''whisper_cpp'' True ''English'' ''German'') =
     ''whisper_cpp''"
    by blast
  moreover
  have engine: "transcription_model job_nul = ''whisper_cpp''"
    by (simp add: job_nul_def GameTranslator_init_def)
  with main_never_unsupported_engine [of env_nul cl_A job_nul]
  have "returned (translate env_nul job_nul) \<noteq> Inl ValueError_unsupported_engine"
    by blast
  ultimately show ?thesis
    using given other parse_args_cl_A main_env_A engine returned_env_nul by simp
qed

end
